theory Spec2Isabelle
  imports Main "HOL-Library.Sublist" "HOL-Library.Char_ord" "HOL-Library.List_Lexorder"
    "HOL-Library.Product_Lexorder"
begin

section \<open>The schema: tables of the backing store\<close>

text \<open>
  The application is a set of page components over a hosted PostgreSQL store; the schema,
  the row-level-security policies and the two helper functions are the SQL of the
  repository. Each table is a list of rows in heap order. A UUID is an opaque key and is
  modelled by a natural number; a timestamp is a number of milliseconds; a
  \<open>NUMERIC(10,2)\<close> amount is an integer number of hundredths; a \<open>DATE\<close> is a day number.
  Columns that no page reads or writes (\<open>user_roles.id\<close>, \<open>user_roles.created_at\<close>,
  \<open>profiles.id\<close>, \<open>profiles.created_at\<close>, \<open>tenants.updated_at\<close>) are left out.
\<close>

type_synonym uuid = nat
type_synonym timestamp = nat

datatype app_role = Admin | Tenant

record auth_user =
  au_id :: uuid
  au_email :: string

record user_role_row =
  ur_user_id :: uuid
  ur_role :: app_role

record profile_row =
  pf_user_id :: uuid
  pf_full_name :: "string option"

record tenant_row =
  t_id :: uuid
  t_name :: string
  t_room_no :: string
  t_contact :: string
  t_deposit_amount :: int
  t_auth_user_id :: "uuid option"
  t_created_at :: timestamp

record rent_payment_row =
  rp_id :: uuid
  rp_tenant_id :: uuid
  rp_month :: int
  rp_year :: int
  rp_amount :: int
  rp_paid_on :: nat
  rp_created_at :: timestamp

record maintenance_request_row =
  mr_id :: uuid
  mr_tenant_id :: uuid
  mr_room_no :: string
  mr_issue_description :: string
  mr_status :: string
  mr_created_at :: timestamp
  mr_resolved_at :: "timestamp option"

text \<open>
  The write requests a page sends to the backend (\<open>supabase.auth.signUp\<close>,
  \<open>.insert\<close>, \<open>.update\<close>) are logged in \<open>sent\<close>, so that "no call is issued" can be
  stated. \<open>next_uuid\<close> stands for \<open>gen_random_uuid()\<close>: every generated key is fresh.
\<close>

datatype table = T_tenants | T_user_roles | T_rent_payments | T_maintenance_requests

datatype api_call = SignUp string | Insert table | Update table uuid

record world =
  auth_users :: "auth_user list"
  user_roles :: "user_role_row list"
  profiles :: "profile_row list"
  tenants :: "tenant_row list"
  rent_payments :: "rent_payment_row list"
  maintenance_requests :: "maintenance_request_row list"
  next_uuid :: nat
  sent :: "api_call list"

section \<open>Row-level security\<close>

text \<open>\<open>public.has_role(_user_id, _role)\<close>: a row of \<open>user_roles\<close> with that user and role exists.\<close>

definition has_role :: "uuid \<Rightarrow> app_role \<Rightarrow> world \<Rightarrow> bool" where
  "has_role uid r w = list_ex (\<lambda>x. ur_user_id x = uid \<and> ur_role x = r) (user_roles w)"

text \<open>
  \<open>public.get_tenant_id_for_user(_user_id)\<close>:
  \<open>SELECT id FROM tenants WHERE auth_user_id = _user_id LIMIT 1\<close>; NULL (\<open>None\<close>) when no
  tenant row links to the user. Without \<open>ORDER BY\<close> the row picked is the server's choice;
  the model takes the first in heap order.
\<close>

definition get_tenant_id_for_user :: "uuid \<Rightarrow> world \<Rightarrow> uuid option" where
  "get_tenant_id_for_user uid w =
     map_option t_id (find (\<lambda>t. t_auth_user_id t = Some uid) (tenants w))"

text \<open>
  The rows a \<open>SELECT\<close> by principal \<open>uid\<close> sees: the permissive policies of a table are
  joined by OR. \<open>tenant_id = get_tenant_id_for_user(auth.uid())\<close> is not true when the
  function returns NULL.
\<close>

definition select_tenants :: "uuid \<Rightarrow> world \<Rightarrow> tenant_row list" where
  "select_tenants uid w =
     filter (\<lambda>t. has_role uid Admin w \<or> t_auth_user_id t = Some uid) (tenants w)"

definition select_rent_payments :: "uuid \<Rightarrow> world \<Rightarrow> rent_payment_row list" where
  "select_rent_payments uid w =
     filter (\<lambda>p. has_role uid Admin w \<or> get_tenant_id_for_user uid w = Some (rp_tenant_id p))
       (rent_payments w)"

definition select_maintenance_requests :: "uuid \<Rightarrow> world \<Rightarrow> maintenance_request_row list" where
  "select_maintenance_requests uid w =
     filter (\<lambda>r. has_role uid Admin w \<or> get_tenant_id_for_user uid w = Some (mr_tenant_id r))
       (maintenance_requests w)"

text \<open>
  \<open>.order(col)\<close> and \<open>.order(col, {ascending: false})\<close>: a sort by the column. The order
  among equal keys is the server's choice; the model keeps a stable one.
\<close>

definition order_asc :: "('a \<Rightarrow> 'k::linorder) \<Rightarrow> 'a list \<Rightarrow> 'a list" where
  "order_asc k xs = sort_key k xs"

definition order_desc :: "('a \<Rightarrow> 'k::linorder) \<Rightarrow> 'a list \<Rightarrow> 'a list" where
  "order_desc k xs = rev (sort_key k xs)"

section \<open>Dashboard.tsx\<close>

text \<open>
  The component state that the admin branch renders from: \<open>tenants\<close>, \<open>paidTenants\<close> (the
  \<open>tenant_id\<close>s of the payments of the selected month and year) and \<open>openRequests\<close>.
  \<open>data || []\<close> turns a failed read into the empty list; a read in the model does not fail.
\<close>

record dashboard_state =
  ds_tenants :: "tenant_row list"
  ds_paidTenants :: "uuid list"
  ds_openRequests :: "maintenance_request_row list"

definition fetchAdminData :: "uuid \<Rightarrow> int \<Rightarrow> int \<Rightarrow> world \<Rightarrow> dashboard_state" where
  "fetchAdminData uid selectedMonth selectedYear w =
     \<lparr> ds_tenants = select_tenants uid w,
       ds_paidTenants =
         map rp_tenant_id
           (filter (\<lambda>p. rp_month p = selectedMonth \<and> rp_year p = selectedYear)
              (select_rent_payments uid w)),
       ds_openRequests =
         take 5 (order_desc mr_created_at
           (filter (\<lambda>r. mr_status r = ''open'') (select_maintenance_requests uid w))) \<rparr>"

definition fetchTenantData :: "uuid \<Rightarrow> world \<Rightarrow> maintenance_request_row list" where
  "fetchTenantData uid w =
     order_desc mr_created_at
       (filter (\<lambda>r. mr_status r = ''open'') (select_maintenance_requests uid w))"

text \<open>\<open>tenants.filter(t => !paidTenants.includes(t.id))\<close>\<close>

definition dueTenants :: "tenant_row list \<Rightarrow> uuid list \<Rightarrow> tenant_row list" where
  "dueTenants ts paidTenants = filter (\<lambda>t. \<not> List.member paidTenants (t_id t)) ts"

text \<open>The four stat cards of the admin dashboard, in the order rendered.\<close>

record admin_stats =
  total_tenants :: nat
  rent_paid :: nat
  rent_due :: nat
  open_requests :: nat

definition Dashboard_stats :: "dashboard_state \<Rightarrow> admin_stats" where
  "Dashboard_stats s =
     \<lparr> total_tenants = length (ds_tenants s),
       rent_paid = length (ds_paidTenants s),
       rent_due = length (dueTenants (ds_tenants s) (ds_paidTenants s)),
       open_requests = length (ds_openRequests s) \<rparr>"

section \<open>RentTracking.tsx: the reads and the derived values\<close>

record rent_tracking_state =
  rt_tenants :: "tenant_row list"
  rt_payments :: "rent_payment_row list"

definition fetchData :: "uuid \<Rightarrow> int \<Rightarrow> int \<Rightarrow> world \<Rightarrow> rent_tracking_state" where
  "fetchData uid selectedMonth selectedYear w =
     \<lparr> rt_tenants = order_asc t_room_no (select_tenants uid w),
       rt_payments =
         order_desc rp_paid_on
           (filter (\<lambda>p. rp_month p = selectedMonth \<and> rp_year p = selectedYear)
              (select_rent_payments uid w)) \<rparr>"

definition paidTenantIds :: "rent_payment_row list \<Rightarrow> uuid list" where
  "paidTenantIds payments = map rp_tenant_id payments"

definition unpaidTenants :: "tenant_row list \<Rightarrow> rent_payment_row list \<Rightarrow> tenant_row list" where
  "unpaidTenants ts payments = filter (\<lambda>t. \<not> List.member (paidTenantIds payments) (t_id t)) ts"

section \<open>Errors and notifications\<close>

text \<open>
  A failed write returns the store's error: an SQLSTATE code and a message. The message
  texts stand for PostgreSQL's; no statement below depends on them.
\<close>

record pg_error =
  pg_code :: string
  pg_message :: string

definition numeric_field_overflow :: pg_error where
  "numeric_field_overflow = \<lparr> pg_code = ''22003'', pg_message = ''numeric field overflow'' \<rparr>"

definition rls_violation :: pg_error where
  "rls_violation =
     \<lparr> pg_code = ''42501'', pg_message = ''new row violates row-level security policy'' \<rparr>"

definition check_violation :: pg_error where
  "check_violation = \<lparr> pg_code = ''23514'', pg_message = ''new row violates check constraint'' \<rparr>"

definition unique_violation :: pg_error where
  "unique_violation =
     \<lparr> pg_code = ''23505'', pg_message = ''duplicate key value violates unique constraint'' \<rparr>"

definition foreign_key_violation :: pg_error where
  "foreign_key_violation =
     \<lparr> pg_code = ''23503'', pg_message = ''insert or update violates foreign key constraint'' \<rparr>"

text \<open>
  What a \<open>try\<close> block throws: \<open>new Error(msg)\<close>, the auth client's error (an \<open>Error\<close>
  with a message) or the error object of a table request. Whether the latter is an
  \<open>instanceof Error\<close> depends on the client library's version, which is not part of the
  repository: it is the parameter \<open>pe\<close> of the handlers. A failed schema parse throws a
  \<open>ZodError\<close> with at least one issue; \<open>error.errors[0].message\<close> is its first message.
\<close>

datatype exn = JsError string | AuthError string | PostgrestError pg_error

datatype thrown = ZodError string "string list" | Exn exn

fun instanceof_Error :: "bool \<Rightarrow> exn \<Rightarrow> bool" where
  "instanceof_Error pe (JsError m) = True"
| "instanceof_Error pe (AuthError m) = True"
| "instanceof_Error pe (PostgrestError e) = pe"

fun exn_message :: "exn \<Rightarrow> string" where
  "exn_message (JsError m) = m"
| "exn_message (AuthError m) = m"
| "exn_message (PostgrestError e) = pg_message e"

record toast =
  title :: string
  description :: string
  destructive :: bool

text \<open>\<open>NUMERIC(10,2)\<close>: at most eight digits before the point, in hundredths.\<close>

definition numeric_10_2 :: "int \<Rightarrow> bool" where
  "numeric_10_2 a = (\<bar>a\<bar> < 10 ^ 10)"

definition log_call :: "api_call \<Rightarrow> world \<Rightarrow> world" where
  "log_call c w = w\<lparr> sent := sent w @ [c] \<rparr>"

section \<open>RentTracking.tsx: recording a payment\<close>

text \<open>
  The object passed to \<open>.insert\<close>, after \<open>Number(...)\<close> and the request's coercion to the
  column types. A payload that cannot be coerced (\<open>NaN\<close>, a fraction for \<open>month\<close>, an
  empty \<open>tenant_id\<close>, a malformed date) is outside the model.
\<close>

record rent_payment_input =
  in_tenant_id :: uuid
  in_month :: int
  in_year :: int
  in_amount :: int
  in_paid_on :: nat

text \<open>
  \<open>INSERT INTO rent_payments\<close> by principal \<open>uid\<close> at server time \<open>now\<close>. In PostgreSQL's
  order: the value is coerced to \<open>NUMERIC(10,2)\<close>; the row-level-security check of the
  only policy that covers \<open>INSERT\<close> (admins, \<open>FOR ALL\<close>); the \<open>CHECK\<close> constraints on
  \<open>month\<close> and \<open>year\<close>; the unique index on \<open>(tenant_id, month, year)\<close>; the foreign key
  to \<open>tenants\<close>. There is no constraint on the sign of \<open>amount\<close>.
\<close>

definition insert_rent_payment ::
  "uuid \<Rightarrow> timestamp \<Rightarrow> rent_payment_input \<Rightarrow> world \<Rightarrow> pg_error option \<times> world" where
  "insert_rent_payment uid now x w0 =
     (let w = log_call (Insert T_rent_payments) w0 in
      if \<not> numeric_10_2 (in_amount x) then (Some numeric_field_overflow, w)
      else if \<not> has_role uid Admin w then (Some rls_violation, w)
      else if \<not> (in_month x \<ge> 1 \<and> in_month x \<le> 12) then (Some check_violation, w)
      else if \<not> (in_year x \<ge> 2000 \<and> in_year x \<le> 2100) then (Some check_violation, w)
      else if list_ex (\<lambda>p. rp_tenant_id p = in_tenant_id x \<and> rp_month p = in_month x
                           \<and> rp_year p = in_year x) (rent_payments w)
        then (Some unique_violation, w)
      else if \<not> list_ex (\<lambda>t. t_id t = in_tenant_id x) (tenants w)
        then (Some foreign_key_violation, w)
      else (None,
        w\<lparr> rent_payments := rent_payments w @
              [\<lparr> rp_id = next_uuid w, rp_tenant_id = in_tenant_id x, rp_month = in_month x,
                 rp_year = in_year x, rp_amount = in_amount x, rp_paid_on = in_paid_on x,
                 rp_created_at = now \<rparr>],
           next_uuid := Suc (next_uuid w) \<rparr>))"

text \<open>
  The error the handler throws for code 23505,
  \<open>new Error('Payment already recorded for this tenant and month')\<close>.
\<close>

definition DuplicatePayment :: exn where
  "DuplicatePayment = JsError ''Payment already recorded for this tenant and month''"

text \<open>The \<open>try\<close> block of \<open>handleSubmit\<close>: what it throws, or that it ran to its end.\<close>

definition recordPayment_try ::
  "uuid \<Rightarrow> timestamp \<Rightarrow> rent_payment_input \<Rightarrow> world \<Rightarrow> (exn + unit) \<times> world" where
  "recordPayment_try uid now formData w =
     (case insert_rent_payment uid now formData w of
        (Some error, w') \<Rightarrow>
          (if pg_code error = ''23505''
           then Inl (JsError ''Payment already recorded for this tenant and month'')
           else Inl (PostgrestError error), w')
      | (None, w') \<Rightarrow> (Inr (), w'))"

text \<open>
  \<open>handleSubmit\<close> with its \<open>catch\<close>: the notification shown and the store afterwards. The
  view state it resets (the dialog, the form) and the re-read are not modelled.
\<close>

definition RentTracking_handleSubmit ::
  "bool \<Rightarrow> uuid \<Rightarrow> timestamp \<Rightarrow> rent_payment_input \<Rightarrow> world \<Rightarrow> toast \<times> world" where
  "RentTracking_handleSubmit pe uid now formData w =
     (case recordPayment_try uid now formData w of
        (Inl error, w') \<Rightarrow>
          (\<lparr> title = ''Error'',
             description = (if instanceof_Error pe error then exn_message error
                            else ''Failed to record payment''),
             destructive = True \<rparr>, w')
      | (Inr u, w') \<Rightarrow>
          (\<lparr> title = ''Payment recorded'',
             description = ''Rent payment has been recorded successfully.'',
             destructive = False \<rparr>, w'))"

section \<open>SubmitRequest.tsx: creating a maintenance request\<close>

text \<open>
  \<open>z.string().min(n, msg)\<close> and \<open>.max(n)\<close>: each check adds an issue when it fails. The
  length is JavaScript's \<open>.length\<close>; a \<open>string\<close> here holds one character per code unit.
  A \<open>.max\<close> without a message reports the library's default text.
\<close>

definition zod_min :: "nat \<Rightarrow> string \<Rightarrow> string \<Rightarrow> string list" where
  "zod_min n msg s = (if length s < n then [msg] else [])"

definition zod_max :: "nat \<Rightarrow> string \<Rightarrow> string \<Rightarrow> string list" where
  "zod_max n msg s = (if length s > n then [msg] else [])"

definition zod_result :: "string list \<Rightarrow> 'a \<Rightarrow> thrown + 'a" where
  "zod_result issues v = (case issues of [] \<Rightarrow> Inr v | m # ms \<Rightarrow> Inl (ZodError m ms))"

definition requestSchema_parse :: "string \<Rightarrow> thrown + string" where
  "requestSchema_parse issue_description =
     zod_result
       (zod_min 10 ''Please describe the issue in at least 10 characters'' issue_description @
        zod_max 1000 ''String must contain at most 1000 character(s)'' issue_description)
       issue_description"

record tenant_info =
  ti_id :: uuid
  ti_room_no :: string

text \<open>
  \<open>fetchTenantInfo\<close>: \<open>.eq('auth_user_id', user.id).maybeSingle()\<close> gives the row when
  there is exactly one, \<open>null\<close> when there is none, and an error (caught, the state stays
  \<open>null\<close>) when there are several.
\<close>

definition fetchTenantInfo :: "uuid \<Rightarrow> world \<Rightarrow> tenant_info option" where
  "fetchTenantInfo uid w =
     (case filter (\<lambda>t. t_auth_user_id t = Some uid) (select_tenants uid w) of
        [t] \<Rightarrow> Some \<lparr> ti_id = t_id t, ti_room_no = t_room_no t \<rparr>
      | _ \<Rightarrow> None)"

record maintenance_request_input =
  mi_tenant_id :: uuid
  mi_room_no :: string
  mi_issue_description :: string
  mi_status :: string

text \<open>
  \<open>INSERT INTO maintenance_requests\<close>: the row passes row-level security when the
  principal is an admin or the row's \<open>tenant_id\<close> is the principal's own; then the
  \<open>CHECK\<close> on \<open>status\<close> and the foreign key. \<open>created_at\<close> is the server's \<open>now()\<close>,
  \<open>resolved_at\<close> is NULL.
\<close>

definition insert_maintenance_request ::
  "uuid \<Rightarrow> timestamp \<Rightarrow> maintenance_request_input \<Rightarrow> world \<Rightarrow> pg_error option \<times> world" where
  "insert_maintenance_request uid now x w0 =
     (let w = log_call (Insert T_maintenance_requests) w0 in
      if \<not> (has_role uid Admin w \<or> get_tenant_id_for_user uid w = Some (mi_tenant_id x))
        then (Some rls_violation, w)
      else if \<not> (mi_status x = ''open'' \<or> mi_status x = ''resolved'')
        then (Some check_violation, w)
      else if \<not> list_ex (\<lambda>t. t_id t = mi_tenant_id x) (tenants w)
        then (Some foreign_key_violation, w)
      else (None,
        w\<lparr> maintenance_requests := maintenance_requests w @
              [\<lparr> mr_id = next_uuid w, mr_tenant_id = mi_tenant_id x, mr_room_no = mi_room_no x,
                 mr_issue_description = mi_issue_description x, mr_status = mi_status x,
                 mr_created_at = now, mr_resolved_at = None \<rparr>],
           next_uuid := Suc (next_uuid w) \<rparr>))"

definition SubmitRequest_handleSubmit ::
  "uuid \<Rightarrow> timestamp \<Rightarrow> tenant_info option \<Rightarrow> string \<Rightarrow> world \<Rightarrow> toast \<times> world" where
  "SubmitRequest_handleSubmit uid now tenantInfo issueDescription w =
     (case tenantInfo of
        None \<Rightarrow>
          (\<lparr> title = ''Error'', description = ''Tenant information not found'',
             destructive = True \<rparr>, w)
      | Some ti \<Rightarrow>
          (case requestSchema_parse issueDescription of
             Inl (ZodError m ms) \<Rightarrow>
               (\<lparr> title = ''Validation error'', description = m, destructive = True \<rparr>, w)
           | Inl (Exn e) \<Rightarrow>
               (\<lparr> title = ''Error'', description = ''Failed to submit request'',
                  destructive = True \<rparr>, w)
           | Inr validated \<Rightarrow>
               (case insert_maintenance_request uid now
                       \<lparr> mi_tenant_id = ti_id ti, mi_room_no = ti_room_no ti,
                         mi_issue_description = validated, mi_status = ''open'' \<rparr> w of
                  (Some error, w') \<Rightarrow>
                    (\<lparr> title = ''Error'', description = ''Failed to submit request'',
                       destructive = True \<rparr>, w')
                | (None, w') \<Rightarrow>
                    (\<lparr> title = ''Request submitted'',
                       description =
                         ''Your maintenance request has been submitted successfully.'',
                       destructive = False \<rparr>, w'))))"

section \<open>MaintenanceManagement.tsx\<close>

datatype request_filter = All_requests | Open_only | Resolved_only

text \<open>\<open>fetchRequests\<close>: all visible requests, newest first, narrowed by the filter.\<close>

definition fetchRequests :: "uuid \<Rightarrow> request_filter \<Rightarrow> world \<Rightarrow> maintenance_request_row list" where
  "fetchRequests uid flt w =
     (let rows = select_maintenance_requests uid w in
      order_desc mr_created_at
        (case flt of
           All_requests \<Rightarrow> rows
         | Open_only \<Rightarrow> filter (\<lambda>r. mr_status r = ''open'') rows
         | Resolved_only \<Rightarrow> filter (\<lambda>r. mr_status r = ''resolved'') rows))"

definition openCount :: "maintenance_request_row list \<Rightarrow> nat" where
  "openCount requests = length (filter (\<lambda>r. mr_status r = ''open'') requests)"

definition resolvedCount :: "maintenance_request_row list \<Rightarrow> nat" where
  "resolvedCount requests = length (filter (\<lambda>r. mr_status r = ''resolved'') requests)"

text \<open>
  \<open>UPDATE maintenance_requests SET status = 'resolved', resolved_at = :t WHERE id = :id\<close>.
  Only the admins' policy covers \<open>UPDATE\<close>: for any other principal no row qualifies and
  the statement changes nothing, without an error. \<open>t\<close> is the value the client sends.
\<close>

definition resolve_row :: "timestamp \<Rightarrow> maintenance_request_row \<Rightarrow> maintenance_request_row" where
  "resolve_row t r = r\<lparr> mr_status := ''resolved'', mr_resolved_at := Some t \<rparr>"

definition update_request_resolved ::
  "uuid \<Rightarrow> timestamp \<Rightarrow> uuid \<Rightarrow> world \<Rightarrow> pg_error option \<times> world" where
  "update_request_resolved uid t rid w0 =
     (let w = log_call (Update T_maintenance_requests rid) w0 in
      if has_role uid Admin w
      then (None,
        w\<lparr> maintenance_requests :=
              map (\<lambda>r. if mr_id r = rid then resolve_row t r else r) (maintenance_requests w) \<rparr>)
      else (None, w))"

text \<open>
  \<open>handleResolve(id)\<close>; \<open>client_now\<close> is \<open>new Date()\<close>, the clock of the browser that
  runs the page.
\<close>

definition handleResolve :: "uuid \<Rightarrow> timestamp \<Rightarrow> uuid \<Rightarrow> world \<Rightarrow> toast \<times> world" where
  "handleResolve uid client_now rid w =
     (case update_request_resolved uid client_now rid w of
        (Some error, w') \<Rightarrow>
          (\<lparr> title = ''Error'', description = ''Failed to update request'',
             destructive = True \<rparr>, w')
      | (None, w') \<Rightarrow>
          (\<lparr> title = ''Request resolved'',
             description = ''Maintenance request has been marked as resolved.'',
             destructive = False \<rparr>, w'))"

section \<open>TenantManagement: adding a tenant\<close>

text \<open>
  The form after \<open>Number(formData.deposit_amount)\<close>; the deposit is in hundredths.
  \<open>z.string().email(msg)\<close> tests the library's pattern, the parameter \<open>is_email\<close>.
\<close>

record tenant_form =
  f_name :: string
  f_room_no :: string
  f_contact :: string
  f_deposit_amount :: int
  f_email :: string
  f_password :: string

definition tenantSchema_parse :: "(string \<Rightarrow> bool) \<Rightarrow> tenant_form \<Rightarrow> thrown + tenant_form" where
  "tenantSchema_parse is_email f =
     zod_result
       (zod_min 1 ''Name is required'' (f_name f) @
        zod_max 100 ''String must contain at most 100 character(s)'' (f_name f) @
        zod_min 1 ''Room number is required'' (f_room_no f) @
        zod_max 10 ''String must contain at most 10 character(s)'' (f_room_no f) @
        zod_min 10 ''Valid contact number required'' (f_contact f) @
        zod_max 15 ''String must contain at most 15 character(s)'' (f_contact f) @
        (if f_deposit_amount f < 0 then [''Deposit must be positive''] else []) @
        (if \<not> is_email (f_email f) then [''Valid email required''] else []) @
        zod_min 6 ''Password must be at least 6 characters'' (f_password f))
       f"

text \<open>
  Modelled from the spec: \<open>supabase.auth.signUp\<close>, the hosted auth service, which is not
  in the repository. It creates a principal with the given credentials and fails when the
  email is already registered. The trigger \<open>on_auth_user_created\<close> of the schema then
  adds the profile row. The session that sends the later requests stays the caller's.
\<close>

definition auth_signUp :: "string \<Rightarrow> string \<Rightarrow> world \<Rightarrow> (string + uuid option) \<times> world" where
  "auth_signUp email password w0 =
     (let w = log_call (SignUp email) w0 in
      if list_ex (\<lambda>u. au_email u = email) (auth_users w)
      then (Inl ''User already registered'', w)
      else (Inr (Some (next_uuid w)),
        w\<lparr> auth_users := auth_users w @ [\<lparr> au_id = next_uuid w, au_email = email \<rparr>],
           profiles := profiles w @ [\<lparr> pf_user_id = next_uuid w, pf_full_name = None \<rparr>],
           next_uuid := Suc (next_uuid w) \<rparr>))"

record tenant_input =
  ni_name :: string
  ni_room_no :: string
  ni_contact :: string
  ni_deposit_amount :: int
  ni_auth_user_id :: uuid

text \<open>
  \<open>INSERT INTO tenants\<close>: the \<open>NUMERIC(10,2)\<close> coercion of the deposit, the admins'
  policy, the foreign key to \<open>auth.users\<close>.
\<close>

definition insert_tenant ::
  "uuid \<Rightarrow> timestamp \<Rightarrow> tenant_input \<Rightarrow> world \<Rightarrow> pg_error option \<times> world" where
  "insert_tenant uid now x w0 =
     (let w = log_call (Insert T_tenants) w0 in
      if \<not> numeric_10_2 (ni_deposit_amount x) then (Some numeric_field_overflow, w)
      else if \<not> has_role uid Admin w then (Some rls_violation, w)
      else if \<not> list_ex (\<lambda>u. au_id u = ni_auth_user_id x) (auth_users w)
        then (Some foreign_key_violation, w)
      else (None,
        w\<lparr> tenants := tenants w @
              [\<lparr> t_id = next_uuid w, t_name = ni_name x, t_room_no = ni_room_no x,
                 t_contact = ni_contact x, t_deposit_amount = ni_deposit_amount x,
                 t_auth_user_id = Some (ni_auth_user_id x), t_created_at = now \<rparr>],
           next_uuid := Suc (next_uuid w) \<rparr>))"

text \<open>
  \<open>INSERT INTO user_roles\<close>: the admins' policy, \<open>UNIQUE (user_id, role)\<close>, the foreign
  key to \<open>auth.users\<close>.
\<close>

definition insert_user_role :: "uuid \<Rightarrow> user_role_row \<Rightarrow> world \<Rightarrow> pg_error option \<times> world" where
  "insert_user_role uid x w0 =
     (let w = log_call (Insert T_user_roles) w0 in
      if \<not> has_role uid Admin w then (Some rls_violation, w)
      else if list_ex (\<lambda>r. ur_user_id r = ur_user_id x \<and> ur_role r = ur_role x) (user_roles w)
        then (Some unique_violation, w)
      else if \<not> list_ex (\<lambda>u. au_id u = ur_user_id x) (auth_users w)
        then (Some foreign_key_violation, w)
      else (None, w\<lparr> user_roles := user_roles w @ [x] \<rparr>))"

text \<open>
  The \<open>try\<close> block of \<open>handleSubmit\<close>: parse, sign up, insert the tenant, assign the
  role. Each failure is thrown as it is; nothing undoes an earlier step.
\<close>

definition addTenant_try ::
  "(string \<Rightarrow> bool) \<Rightarrow> uuid \<Rightarrow> timestamp \<Rightarrow> tenant_form \<Rightarrow> world \<Rightarrow> (thrown + tenant_form) \<times> world" where
  "addTenant_try is_email uid now formData w =
     (case tenantSchema_parse is_email formData of
        Inl z \<Rightarrow> (Inl z, w)
      | Inr validated \<Rightarrow>
          (case auth_signUp (f_email validated) (f_password validated) w of
             (Inl authError, w1) \<Rightarrow> (Inl (Exn (AuthError authError)), w1)
           | (Inr None, w1) \<Rightarrow> (Inl (Exn (JsError ''Failed to create user'')), w1)
           | (Inr (Some user_id), w1) \<Rightarrow>
               (case insert_tenant uid now
                       \<lparr> ni_name = f_name validated, ni_room_no = f_room_no validated,
                         ni_contact = f_contact validated,
                         ni_deposit_amount = f_deposit_amount validated,
                         ni_auth_user_id = user_id \<rparr> w1 of
                  (Some tenantError, w2) \<Rightarrow> (Inl (Exn (PostgrestError tenantError)), w2)
                | (None, w2) \<Rightarrow>
                    (case insert_user_role uid \<lparr> ur_user_id = user_id, ur_role = Tenant \<rparr> w2 of
                       (Some roleError, w3) \<Rightarrow> (Inl (Exn (PostgrestError roleError)), w3)
                     | (None, w3) \<Rightarrow> (Inr validated, w3)))))"

definition TenantManagement_handleSubmit ::
  "bool \<Rightarrow> (string \<Rightarrow> bool) \<Rightarrow> uuid \<Rightarrow> timestamp \<Rightarrow> tenant_form \<Rightarrow> world \<Rightarrow> toast \<times> world" where
  "TenantManagement_handleSubmit pe is_email uid now formData w =
     (case addTenant_try is_email uid now formData w of
        (Inl (ZodError m ms), w') \<Rightarrow>
          (\<lparr> title = ''Validation error'', description = m, destructive = True \<rparr>, w')
      | (Inl (Exn error), w') \<Rightarrow>
          (\<lparr> title = ''Error'',
             description = (if instanceof_Error pe error then exn_message error
                            else ''Failed to add tenant''),
             destructive = True \<rparr>, w')
      | (Inr validated, w') \<Rightarrow>
          (\<lparr> title = ''Tenant added'',
             description = f_name validated @ '' has been added successfully.'',
             destructive = False \<rparr>, w'))"

section \<open>MyRentHistory.tsx\<close>

text \<open>
  \<open>fetchPayments\<close>: every visible payment, by year and then month, both descending. The
  query has no filter of its own: what the tenant sees is what row-level security leaves.
\<close>

definition fetchPayments :: "uuid \<Rightarrow> world \<Rightarrow> rent_payment_row list" where
  "fetchPayments uid w = order_desc (\<lambda>p. (rp_year p, rp_month p)) (select_rent_payments uid w)"

section \<open>Routing and the role of the signed-in principal\<close>













section \<open>The operations of the application as steps of the store\<close>

text \<open>
  One step is one run of a handler that writes: by any principal, at any time, with any
  input. \<open>resolved_at\<close> is the browser's clock and \<open>created_at\<close> the server's; with
  \<open>synced\<close> set, a resolve step is taken only with a clock reading that is not earlier
  than the \<open>created_at\<close> of the rows it addresses. A reachable store is one the handlers
  produce from a store without maintenance requests.
\<close>

inductive app_step :: "bool \<Rightarrow> world \<Rightarrow> world \<Rightarrow> bool" for synced :: bool where
  submit_request:
    "SubmitRequest_handleSubmit uid now tenantInfo issueDescription w = (t, w')
     \<Longrightarrow> app_step synced w w'"
| resolve_request:
    "handleResolve uid client_now rid w = (t, w')
     \<Longrightarrow> (synced \<longrightarrow> (\<forall>r \<in> set (maintenance_requests w).
                        mr_id r = rid \<longrightarrow> mr_created_at r \<le> client_now))
     \<Longrightarrow> app_step synced w w'"
| record_payment:
    "RentTracking_handleSubmit pe uid now formData w = (t, w') \<Longrightarrow> app_step synced w w'"
| add_tenant:
    "TenantManagement_handleSubmit pe is_email uid now tenantForm w = (t, w')
     \<Longrightarrow> app_step synced w w'"

inductive reachable :: "bool \<Rightarrow> world \<Rightarrow> bool" for synced :: bool where
  initial: "maintenance_requests w = [] \<Longrightarrow> reachable synced w"
| step: "reachable synced w \<Longrightarrow> app_step synced w w' \<Longrightarrow> reachable synced w'"

section \<open>Example stores\<close>

text \<open>
  A store with an admin (user 1), two tenants A and B (users 2 and 3, tenant rows 10 and
  11) and a signed-up user without a role record (user 4); the same store with A's
  payment for March 2024; and with six open maintenance requests.
\<close>

definition example_world :: world where
  "example_world =
     \<lparr> auth_users = [\<lparr> au_id = 1, au_email = ''owner@pg.test'' \<rparr>,
                     \<lparr> au_id = 2, au_email = ''a@pg.test'' \<rparr>,
                     \<lparr> au_id = 3, au_email = ''b@pg.test'' \<rparr>,
                     \<lparr> au_id = 4, au_email = ''norole@pg.test'' \<rparr>],
       user_roles = [\<lparr> ur_user_id = 1, ur_role = Admin \<rparr>,
                     \<lparr> ur_user_id = 2, ur_role = Tenant \<rparr>,
                     \<lparr> ur_user_id = 3, ur_role = Tenant \<rparr>],
       profiles = [],
       tenants = [\<lparr> t_id = 10, t_name = ''A'', t_room_no = ''101'', t_contact = ''9000000001'',
                     t_deposit_amount = 500000, t_auth_user_id = Some 2, t_created_at = 0 \<rparr>,
                  \<lparr> t_id = 11, t_name = ''B'', t_room_no = ''102'', t_contact = ''9000000002'',
                     t_deposit_amount = 500000, t_auth_user_id = Some 3, t_created_at = 0 \<rparr>],
       rent_payments = [],
       maintenance_requests = [],
       next_uuid = 100,
       sent = [] \<rparr>"

definition payment_of_A :: rent_payment_row where
  "payment_of_A =
     \<lparr> rp_id = 50, rp_tenant_id = 10, rp_month = 3, rp_year = 2024, rp_amount = 500000,
       rp_paid_on = 19800, rp_created_at = 5 \<rparr>"

definition paid_world :: world where
  "paid_world = example_world \<lparr> rent_payments := [payment_of_A] \<rparr>"

definition six_open_world :: world where
  "six_open_world =
     example_world \<lparr> maintenance_requests :=
       map (\<lambda>n. \<lparr> mr_id = 20 + n, mr_tenant_id = 10, mr_room_no = ''101'',
                   mr_issue_description = ''The tap in the bathroom leaks'',
                   mr_status = ''open'', mr_created_at = n, mr_resolved_at = None \<rparr>)
         [1, 2, 3, 4, 5, 6] \<rparr>"

text \<open>
  B's payment and B's open request beside A's payment; A's tenant information as the
  request page holds it; the form for A's rent of March 2024.
\<close>

definition payment_of_B :: rent_payment_row where
  "payment_of_B =
     \<lparr> rp_id = 51, rp_tenant_id = 11, rp_month = 3, rp_year = 2024, rp_amount = 450000,
       rp_paid_on = 19801, rp_created_at = 6 \<rparr>"

definition request_of_B :: maintenance_request_row where
  "request_of_B =
     \<lparr> mr_id = 60, mr_tenant_id = 11, mr_room_no = ''102'',
       mr_issue_description = ''The window does not close'', mr_status = ''open'',
       mr_created_at = 8, mr_resolved_at = None \<rparr>"

definition shared_world :: world where
  "shared_world =
     example_world \<lparr> rent_payments := [payment_of_A, payment_of_B],
                     maintenance_requests := [request_of_B] \<rparr>"

definition info_of_A :: tenant_info where
  "info_of_A = \<lparr> ti_id = 10, ti_room_no = ''101'' \<rparr>"

definition march_rent_A :: rent_payment_input where
  "march_rent_A =
     \<lparr> in_tenant_id = 10, in_month = 3, in_year = 2024, in_amount = 500000,
       in_paid_on = 19800 \<rparr>"

text \<open>
  A submits a request at server time 100 (it gets the key 100); the admin resolves it
  with a browser clock that reads 200, or with one that reads 50.
\<close>

definition submitted_world :: world where
  "submitted_world =
     snd (SubmitRequest_handleSubmit 2 100 (Some info_of_A) ''The tap in the bathroom leaks''
            example_world)"

definition resolved_world :: world where
  "resolved_world = snd (handleResolve 1 200 100 submitted_world)"

definition early_resolved_world :: world where
  "early_resolved_world = snd (handleResolve 1 50 100 submitted_world)"




section \<open>Helper facts\<close>

lemma set_order_asc: "set (order_asc k xs) = set xs"
  by (simp add: order_asc_def)

lemma set_order_desc: "set (order_desc k xs) = set xs"
  by (simp add: order_desc_def)

lemma length_order_asc: "length (order_asc k xs) = length xs"
  by (simp add: order_asc_def)

lemma length_order_desc: "length (order_desc k xs) = length xs"
  by (simp add: order_desc_def)

lemma has_role_log_call [simp]: "has_role uid r (log_call c w) = has_role uid r w"
  by (simp add: has_role_def log_call_def)

lemma select_tenants_admin: "has_role uid Admin w \<Longrightarrow> select_tenants uid w = tenants w"
  by (simp add: select_tenants_def)

lemma select_rent_payments_admin:
  "has_role uid Admin w \<Longrightarrow> select_rent_payments uid w = rent_payments w"
  by (simp add: select_rent_payments_def)

lemma select_maintenance_requests_admin:
  "has_role uid Admin w \<Longrightarrow> select_maintenance_requests uid w = maintenance_requests w"
  by (simp add: select_maintenance_requests_def)

text \<open>
  Counting by difference: when the paid ids are pairwise distinct and all occur among the
  (pairwise distinct) ids of the list, the rows that are not paid are the rest.
\<close>

lemma length_filter_not_paid:
  assumes "distinct (map f ts)" and "distinct ids" and "set ids \<subseteq> f ` set ts"
  shows "length (filter (\<lambda>t. f t \<notin> set ids) ts) + length ids = length ts"
proof -
  have "length (filter (\<lambda>t. f t \<notin> set ids) ts) + length (filter (\<lambda>t. f t \<in> set ids) ts)
        = length ts"
    using sum_length_filter_compl [of "\<lambda>t. f t \<notin> set ids" ts] by simp
  moreover have "length (filter (\<lambda>t. f t \<in> set ids) ts) = length ids"
  proof -
    have d: "distinct (filter (\<lambda>t. f t \<in> set ids) ts)"
      using assms(1) by (simp add: distinct_map)
    have inj: "inj_on f (set (filter (\<lambda>t. f t \<in> set ids) ts))"
      using assms(1) by (auto simp: distinct_map inj_on_def)
    have "f ` set (filter (\<lambda>t. f t \<in> set ids) ts) = set ids"
      using assms(3) by auto
    then have "card (set (filter (\<lambda>t. f t \<in> set ids) ts)) = card (set ids)"
      using card_image [OF inj] by simp
    then show ?thesis
      using distinct_card [OF d] distinct_card [OF assms(2)] by simp
  qed
  ultimately show ?thesis by simp
qed

section \<open>The dashboard aggregator\<close>

text \<open>
  C3. For an admin, a fetched tenant is among the due tenants of the selected month and
  year exactly when the store holds no payment row with that tenant's id for that month
  and year, on the dashboard (\<open>dueTenants\<close>) and on the rent page (\<open>unpaidTenants\<close>).
  Empty tenant and payment lists give empty lists and zero counts.
\<close>

theorem dueTenants_iff_no_payment:
  assumes "has_role uid Admin w"
  shows "(\<forall>t \<in> set (ds_tenants (fetchAdminData uid m y w)).
            t \<in> set (dueTenants (ds_tenants (fetchAdminData uid m y w))
                       (ds_paidTenants (fetchAdminData uid m y w)))
            \<longleftrightarrow> \<not> (\<exists>p \<in> set (rent_payments w).
                      rp_tenant_id p = t_id t \<and> rp_month p = m \<and> rp_year p = y))
       \<and> (\<forall>t \<in> set (rt_tenants (fetchData uid m y w)).
            t \<in> set (unpaidTenants (rt_tenants (fetchData uid m y w))
                       (rt_payments (fetchData uid m y w)))
            \<longleftrightarrow> \<not> (\<exists>p \<in> set (rent_payments w).
                      rp_tenant_id p = t_id t \<and> rp_month p = m \<and> rp_year p = y))
       \<and> dueTenants [] [] = [] \<and> unpaidTenants [] [] = []
       \<and> Dashboard_stats \<lparr> ds_tenants = [], ds_paidTenants = [], ds_openRequests = [] \<rparr>
           = \<lparr> total_tenants = 0, rent_paid = 0, rent_due = 0, open_requests = 0 \<rparr>"
proof -
  have a: "\<forall>t \<in> set (ds_tenants (fetchAdminData uid m y w)).
            t \<in> set (dueTenants (ds_tenants (fetchAdminData uid m y w))
                       (ds_paidTenants (fetchAdminData uid m y w)))
            \<longleftrightarrow> \<not> (\<exists>p \<in> set (rent_payments w).
                      rp_tenant_id p = t_id t \<and> rp_month p = m \<and> rp_year p = y)"
    using assms
    by (auto simp: fetchAdminData_def dueTenants_def select_rent_payments_admin image_iff)
  have b: "\<forall>t \<in> set (rt_tenants (fetchData uid m y w)).
            t \<in> set (unpaidTenants (rt_tenants (fetchData uid m y w))
                       (rt_payments (fetchData uid m y w)))
            \<longleftrightarrow> \<not> (\<exists>p \<in> set (rent_payments w).
                      rp_tenant_id p = t_id t \<and> rp_month p = m \<and> rp_year p = y)"
    using assms
    by (auto simp: fetchData_def unpaidTenants_def paidTenantIds_def
        select_rent_payments_admin set_order_asc set_order_desc image_iff)
  show ?thesis
    using a b by (simp add: dueTenants_def unpaidTenants_def Dashboard_stats_def)
qed

theorem dueTenants_iff_no_payment_witness:
  "has_role 1 Admin paid_world
   \<and> map t_id (ds_tenants (fetchAdminData 1 3 2024 paid_world)) = [10, 11]
   \<and> ds_paidTenants (fetchAdminData 1 3 2024 paid_world) = [10]
   \<and> map t_id (dueTenants (ds_tenants (fetchAdminData 1 3 2024 paid_world))
                  (ds_paidTenants (fetchAdminData 1 3 2024 paid_world))) = [11]
   \<and> list_all (\<lambda>t. t \<in> set (dueTenants (ds_tenants (fetchAdminData 1 3 2024 paid_world))
                                (ds_paidTenants (fetchAdminData 1 3 2024 paid_world)))
                  \<longleftrightarrow> \<not> (\<exists>p \<in> set (rent_payments paid_world).
                      rp_tenant_id p = t_id t \<and> rp_month p = 3 \<and> rp_year p = 2024))
        (ds_tenants (fetchAdminData 1 3 2024 paid_world))"
proof -
  have adm: "has_role 1 Admin paid_world"
    by (simp add: paid_world_def example_world_def has_role_def)
  have ev: "map t_id (ds_tenants (fetchAdminData 1 3 2024 paid_world)) = [10, 11]
     \<and> ds_paidTenants (fetchAdminData 1 3 2024 paid_world) = [10]
     \<and> map t_id (dueTenants (ds_tenants (fetchAdminData 1 3 2024 paid_world))
                  (ds_paidTenants (fetchAdminData 1 3 2024 paid_world))) = [11]"
    by (simp add: fetchAdminData_def select_tenants_def select_rent_payments_def
        select_maintenance_requests_def has_role_def paid_world_def example_world_def
        payment_of_A_def dueTenants_def)
  from dueTenants_iff_no_payment [OF adm, of 3 2024]
  have "\<forall>t \<in> set (ds_tenants (fetchAdminData 1 3 2024 paid_world)).
            t \<in> set (dueTenants (ds_tenants (fetchAdminData 1 3 2024 paid_world))
                       (ds_paidTenants (fetchAdminData 1 3 2024 paid_world)))
            \<longleftrightarrow> \<not> (\<exists>p \<in> set (rent_payments paid_world).
                      rp_tenant_id p = t_id t \<and> rp_month p = 3 \<and> rp_year p = 2024)"
    by (rule conjunct1)
  then have la: "list_all (\<lambda>t. t \<in> set (dueTenants (ds_tenants (fetchAdminData 1 3 2024 paid_world))
                                (ds_paidTenants (fetchAdminData 1 3 2024 paid_world)))
                  \<longleftrightarrow> \<not> (\<exists>p \<in> set (rent_payments paid_world).
                      rp_tenant_id p = t_id t \<and> rp_month p = 3 \<and> rp_year p = 2024))
        (ds_tenants (fetchAdminData 1 3 2024 paid_world))"
    by (simp only: list_all_iff)
  show ?thesis
    using adm ev la by blast
qed

text \<open>
  C5. The "Open Requests" card of the admin dashboard shows the length of a list that was
  read with \<open>.limit(5)\<close>: with six open requests in the store it shows 5, while the
  tenant dashboard's read (no limit) and the maintenance page's \<open>openCount\<close> give 6.
\<close>

theorem dashboard_open_requests_capped:
  "length (filter (\<lambda>r. mr_status r = ''open'') (maintenance_requests six_open_world)) = 6
   \<and> has_role 1 Admin six_open_world
   \<and> open_requests (Dashboard_stats (fetchAdminData 1 3 2024 six_open_world)) = 5
   \<and> length (fetchTenantData 1 six_open_world) = 6
   \<and> openCount (fetchRequests 1 All_requests six_open_world) = 6"
  by (simp add: six_open_world_def example_world_def has_role_def Dashboard_stats_def
      fetchAdminData_def fetchTenantData_def fetchRequests_def openCount_def
      select_maintenance_requests_def select_tenants_def select_rent_payments_def
      order_desc_def)

text \<open>
  C10. When the tenant ids are pairwise distinct and the payments of the period have
  pairwise distinct tenant ids, all among the tenants', the number of tenants is the
  number of payments plus the number of unpaid tenants: on the rent page, and likewise
  Total Tenants = Rent Paid + Rent Due on the dashboard.
\<close>

theorem paid_due_partition:
  assumes "distinct (map t_id ts)"
    and "distinct (map rp_tenant_id payments)"
    and "set (map rp_tenant_id payments) \<subseteq> set (map t_id ts)"
  shows "length ts = length payments + length (unpaidTenants ts payments)
       \<and> total_tenants (Dashboard_stats \<lparr> ds_tenants = ts,
             ds_paidTenants = map rp_tenant_id payments, ds_openRequests = reqs \<rparr>)
         = rent_paid (Dashboard_stats \<lparr> ds_tenants = ts,
             ds_paidTenants = map rp_tenant_id payments, ds_openRequests = reqs \<rparr>)
         + rent_due (Dashboard_stats \<lparr> ds_tenants = ts,
             ds_paidTenants = map rp_tenant_id payments, ds_openRequests = reqs \<rparr>)"
proof -
  have "length (filter (\<lambda>t. t_id t \<notin> set (map rp_tenant_id payments)) ts)
          + length (map rp_tenant_id payments) = length ts"
    using assms by (intro length_filter_not_paid) auto
  then show ?thesis
    by (simp add: unpaidTenants_def paidTenantIds_def dueTenants_def Dashboard_stats_def)
qed

theorem paid_due_partition_witness:
  "distinct (map t_id (tenants example_world))
   \<and> distinct (map rp_tenant_id [payment_of_A])
   \<and> set (map rp_tenant_id [payment_of_A]) \<subseteq> set (map t_id (tenants example_world))
   \<and> length (tenants example_world) = 2
   \<and> length (unpaidTenants (tenants example_world) [payment_of_A]) = 1
   \<and> rent_due (Dashboard_stats \<lparr> ds_tenants = tenants example_world,
         ds_paidTenants = map rp_tenant_id [payment_of_A], ds_openRequests = [] \<rparr>) = 1"
proof -
  have d1: "distinct (map t_id (tenants example_world))"
    by (simp add: example_world_def)
  have d2: "distinct (map rp_tenant_id [payment_of_A])"
    by simp
  have sub: "set (map rp_tenant_id [payment_of_A]) \<subseteq> set (map t_id (tenants example_world))"
    by (simp add: example_world_def payment_of_A_def)
  have len: "length (tenants example_world) = 2"
    by (simp add: example_world_def)
  show ?thesis
    using paid_due_partition [OF d1 d2 sub, of "[]"] d1 d2 sub len
    by (simp add: Dashboard_stats_def)
qed

section \<open>The rent ledger\<close>

lemma insert_rent_payment_fresh:
  assumes "has_role uid Admin w" "numeric_10_2 (in_amount x)"
    "1 \<le> in_month x" "in_month x \<le> 12" "2000 \<le> in_year x" "in_year x \<le> 2100"
    "list_ex (\<lambda>t. t_id t = in_tenant_id x) (tenants w)"
    "\<not> list_ex (\<lambda>p. rp_tenant_id p = in_tenant_id x \<and> rp_month p = in_month x
                 \<and> rp_year p = in_year x) (rent_payments w)"
  shows "insert_rent_payment uid now x w =
     (None, w\<lparr> rent_payments := rent_payments w @
              [\<lparr> rp_id = next_uuid w, rp_tenant_id = in_tenant_id x, rp_month = in_month x,
                 rp_year = in_year x, rp_amount = in_amount x, rp_paid_on = in_paid_on x,
                 rp_created_at = now \<rparr>],
           next_uuid := Suc (next_uuid w),
           sent := sent w @ [Insert T_rent_payments] \<rparr>)"
  using assms
  by (simp add: insert_rent_payment_def Let_def log_call_def has_role_def)

lemma insert_rent_payment_duplicate:
  assumes "has_role uid Admin w" "numeric_10_2 (in_amount x)"
    "1 \<le> in_month x" "in_month x \<le> 12" "2000 \<le> in_year x" "in_year x \<le> 2100"
    "list_ex (\<lambda>p. rp_tenant_id p = in_tenant_id x \<and> rp_month p = in_month x
                 \<and> rp_year p = in_year x) (rent_payments w)"
  shows "insert_rent_payment uid now x w =
     (Some unique_violation, w\<lparr> sent := sent w @ [Insert T_rent_payments] \<rparr>)"
  using assms
  by (simp add: insert_rent_payment_def Let_def log_call_def has_role_def)

lemma insert_rent_payment_cases:
  assumes "insert_rent_payment uid now x w = (e, w')"
  shows "(e \<noteq> None \<and> rent_payments w' = rent_payments w)
       \<or> (e = None \<and> 1 \<le> in_month x \<and> in_month x \<le> 12 \<and> 2000 \<le> in_year x
            \<and> in_year x \<le> 2100 \<and> numeric_10_2 (in_amount x)
            \<and> rent_payments w' = rent_payments w @
              [\<lparr> rp_id = next_uuid w, rp_tenant_id = in_tenant_id x, rp_month = in_month x,
                 rp_year = in_year x, rp_amount = in_amount x, rp_paid_on = in_paid_on x,
                 rp_created_at = now \<rparr>])"
  using assms
  by (auto simp: insert_rent_payment_def Let_def log_call_def split: if_splits)

text \<open>
  C1. For an admin and a payment the store accepts (amount within \<open>NUMERIC(10,2)\<close>, month
  and year in range, an existing tenant) whose (tenant_id, month, year) is not yet
  recorded, the first \<open>handleSubmit\<close> succeeds and records the row; a second one with
  the same (tenant_id, month, year) throws \<open>DuplicatePayment\<close>, the error the handler
  raises for the store's code 23505, shows its message whatever the client library, and
  records nothing.
\<close>

theorem recordPayment_unique:
  assumes valid: "has_role uid Admin w" "numeric_10_2 (in_amount x)"
      "1 \<le> in_month x" "in_month x \<le> 12" "2000 \<le> in_year x" "in_year x \<le> 2100"
      "list_ex (\<lambda>t. t_id t = in_tenant_id x) (tenants w)"
    and fresh: "\<not> list_ex (\<lambda>p. rp_tenant_id p = in_tenant_id x \<and> rp_month p = in_month x
                 \<and> rp_year p = in_year x) (rent_payments w)"
    and same: "in_tenant_id x' = in_tenant_id x" "in_month x' = in_month x"
      "in_year x' = in_year x" "numeric_10_2 (in_amount x')"
    and first: "RentTracking_handleSubmit pe uid now x w = (t1, w1)"
    and second: "RentTracking_handleSubmit pe' uid now' x' w1 = (t2, w2)"
  shows "t1 = \<lparr> title = ''Payment recorded'',
                description = ''Rent payment has been recorded successfully.'',
                destructive = False \<rparr>
       \<and> rent_payments w1 = rent_payments w @
              [\<lparr> rp_id = next_uuid w, rp_tenant_id = in_tenant_id x, rp_month = in_month x,
                 rp_year = in_year x, rp_amount = in_amount x, rp_paid_on = in_paid_on x,
                 rp_created_at = now \<rparr>]
       \<and> recordPayment_try uid now' x' w1 = (Inl DuplicatePayment, w2)
       \<and> t2 = \<lparr> title = ''Error'',
                description = ''Payment already recorded for this tenant and month'',
                destructive = True \<rparr>
       \<and> rent_payments w2 = rent_payments w1"
proof -
  have i1: "insert_rent_payment uid now x w =
     (None, w\<lparr> rent_payments := rent_payments w @
              [\<lparr> rp_id = next_uuid w, rp_tenant_id = in_tenant_id x, rp_month = in_month x,
                 rp_year = in_year x, rp_amount = in_amount x, rp_paid_on = in_paid_on x,
                 rp_created_at = now \<rparr>],
           next_uuid := Suc (next_uuid w),
           sent := sent w @ [Insert T_rent_payments] \<rparr>)"
    using valid fresh by (rule insert_rent_payment_fresh)
  from first i1 have t1: "t1 = \<lparr> title = ''Payment recorded'',
                description = ''Rent payment has been recorded successfully.'',
                destructive = False \<rparr>"
    and w1: "w1 = w\<lparr> rent_payments := rent_payments w @
              [\<lparr> rp_id = next_uuid w, rp_tenant_id = in_tenant_id x, rp_month = in_month x,
                 rp_year = in_year x, rp_amount = in_amount x, rp_paid_on = in_paid_on x,
                 rp_created_at = now \<rparr>],
           next_uuid := Suc (next_uuid w),
           sent := sent w @ [Insert T_rent_payments] \<rparr>"
    by (auto simp: RentTracking_handleSubmit_def recordPayment_try_def)
  have adm1: "has_role uid Admin w1"
    using valid(1) w1 by (simp add: has_role_def)
  have dup: "list_ex (\<lambda>p. rp_tenant_id p = in_tenant_id x' \<and> rp_month p = in_month x'
                 \<and> rp_year p = in_year x') (rent_payments w1)"
    using same w1 by (simp add: list_ex_iff)
  have i2: "insert_rent_payment uid now' x' w1 =
     (Some unique_violation, w1\<lparr> sent := sent w1 @ [Insert T_rent_payments] \<rparr>)"
    using adm1 same valid dup by (intro insert_rent_payment_duplicate) simp_all
  then have try2: "recordPayment_try uid now' x' w1
      = (Inl DuplicatePayment, w1\<lparr> sent := sent w1 @ [Insert T_rent_payments] \<rparr>)"
    by (simp add: recordPayment_try_def unique_violation_def DuplicatePayment_def)
  with second have t2: "t2 = \<lparr> title = ''Error'',
                description = ''Payment already recorded for this tenant and month'',
                destructive = True \<rparr>"
    and w2: "w2 = w1\<lparr> sent := sent w1 @ [Insert T_rent_payments] \<rparr>"
    by (auto simp: RentTracking_handleSubmit_def DuplicatePayment_def)
  show ?thesis
    using t1 w1 t2 w2 try2 by simp
qed

theorem recordPayment_unique_witness:
  "has_role 1 Admin example_world \<and> numeric_10_2 (in_amount march_rent_A)
   \<and> list_ex (\<lambda>t. t_id t = in_tenant_id march_rent_A) (tenants example_world)
   \<and> rent_payments example_world = []
   \<and> fst (RentTracking_handleSubmit True 1 7 march_rent_A example_world)
       = \<lparr> title = ''Payment recorded'',
           description = ''Rent payment has been recorded successfully.'',
           destructive = False \<rparr>
   \<and> fst (RentTracking_handleSubmit False 1 8 (march_rent_A \<lparr> in_amount := 1 \<rparr>)
            (snd (RentTracking_handleSubmit True 1 7 march_rent_A example_world)))
       = \<lparr> title = ''Error'',
           description = ''Payment already recorded for this tenant and month'',
           destructive = True \<rparr>
   \<and> map rp_amount (rent_payments
         (snd (RentTracking_handleSubmit False 1 8 (march_rent_A \<lparr> in_amount := 1 \<rparr>)
            (snd (RentTracking_handleSubmit True 1 7 march_rent_A example_world)))))
       = [500000]"
proof -
  have adm: "has_role 1 Admin example_world"
    by (simp add: example_world_def has_role_def)
  have num: "numeric_10_2 (in_amount march_rent_A)"
    by (simp add: march_rent_A_def numeric_10_2_def)
  have num': "numeric_10_2 (in_amount (march_rent_A \<lparr> in_amount := 1 \<rparr>))"
    by (simp add: numeric_10_2_def)
  have ten: "list_ex (\<lambda>t. t_id t = in_tenant_id march_rent_A) (tenants example_world)"
    by (simp add: example_world_def march_rent_A_def)
  have none: "rent_payments example_world = []"
    by (simp add: example_world_def)
  have fresh: "\<not> list_ex (\<lambda>p. rp_tenant_id p = in_tenant_id march_rent_A
      \<and> rp_month p = in_month march_rent_A \<and> rp_year p = in_year march_rent_A)
      (rent_payments example_world)"
    by (simp add: none)
  have th: "fst (RentTracking_handleSubmit True 1 7 march_rent_A example_world)
       = \<lparr> title = ''Payment recorded'',
           description = ''Rent payment has been recorded successfully.'',
           destructive = False \<rparr>
    \<and> rent_payments (snd (RentTracking_handleSubmit True 1 7 march_rent_A example_world))
       = rent_payments example_world @
              [\<lparr> rp_id = next_uuid example_world, rp_tenant_id = in_tenant_id march_rent_A,
                 rp_month = in_month march_rent_A, rp_year = in_year march_rent_A,
                 rp_amount = in_amount march_rent_A, rp_paid_on = in_paid_on march_rent_A,
                 rp_created_at = 7 \<rparr>]
    \<and> recordPayment_try 1 8 (march_rent_A \<lparr> in_amount := 1 \<rparr>)
         (snd (RentTracking_handleSubmit True 1 7 march_rent_A example_world))
       = (Inl DuplicatePayment,
          snd (RentTracking_handleSubmit False 1 8 (march_rent_A \<lparr> in_amount := 1 \<rparr>)
            (snd (RentTracking_handleSubmit True 1 7 march_rent_A example_world))))
    \<and> fst (RentTracking_handleSubmit False 1 8 (march_rent_A \<lparr> in_amount := 1 \<rparr>)
            (snd (RentTracking_handleSubmit True 1 7 march_rent_A example_world)))
       = \<lparr> title = ''Error'',
           description = ''Payment already recorded for this tenant and month'',
           destructive = True \<rparr>
    \<and> rent_payments (snd (RentTracking_handleSubmit False 1 8 (march_rent_A \<lparr> in_amount := 1 \<rparr>)
            (snd (RentTracking_handleSubmit True 1 7 march_rent_A example_world))))
       = rent_payments (snd (RentTracking_handleSubmit True 1 7 march_rent_A example_world))"
    by (rule recordPayment_unique [where x = march_rent_A and x' = "march_rent_A \<lparr> in_amount := 1 \<rparr>",
          OF adm num _ _ _ _ ten fresh _ _ _ num'])
       (simp_all add: march_rent_A_def)
  show ?thesis
    using adm num ten none th by (simp add: march_rent_A_def)
qed

text \<open>
  C7, as the code has it. Every payment row that \<open>handleSubmit\<close> records has its month
  in [1,12], its year in [2000,2100] and an amount within \<open>NUMERIC(10,2)\<close>; a submission
  with a month or year out of range shows the error notification and records nothing.
  The sign of the amount is not checked.
\<close>

theorem recordPayment_month_year_checked:
  assumes "RentTracking_handleSubmit pe uid now x w = (t, w')"
  shows "(\<not> (1 \<le> in_month x \<and> in_month x \<le> 12 \<and> 2000 \<le> in_year x \<and> in_year x \<le> 2100)
            \<longrightarrow> title t = ''Error'' \<and> destructive t \<and> rent_payments w' = rent_payments w)
       \<and> (\<forall>p \<in> set (rent_payments w'). p \<in> set (rent_payments w)
            \<or> (1 \<le> rp_month p \<and> rp_month p \<le> 12 \<and> 2000 \<le> rp_year p \<and> rp_year p \<le> 2100
               \<and> numeric_10_2 (rp_amount p)))"
proof -
  obtain e w1 where ins: "insert_rent_payment uid now x w = (e, w1)"
    by (cases "insert_rent_payment uid now x w")
  from assms ins have w': "w' = w1"
    and t: "e \<noteq> None \<Longrightarrow> title t = ''Error'' \<and> destructive t"
    by (auto simp: RentTracking_handleSubmit_def recordPayment_try_def
        split: if_splits option.splits)
  from insert_rent_payment_cases [OF ins] show ?thesis
    using w' t by auto
qed

theorem recordPayment_month_year_checked_witness:
  "title (fst (RentTracking_handleSubmit True 1 7 (march_rent_A \<lparr> in_month := 13 \<rparr>)
       example_world)) = ''Error''
   \<and> rent_payments (snd (RentTracking_handleSubmit True 1 7 (march_rent_A \<lparr> in_month := 13 \<rparr>)
       example_world)) = []
   \<and> list_all (\<lambda>p. 1 \<le> rp_month p \<and> rp_month p \<le> 12 \<and> 2000 \<le> rp_year p \<and> rp_year p \<le> 2100)
       (rent_payments (snd (RentTracking_handleSubmit True 1 7 march_rent_A example_world)))
   \<and> length (rent_payments (snd (RentTracking_handleSubmit True 1 7 march_rent_A
       example_world))) = 1"
proof -
  have none: "rent_payments example_world = []"
    by (simp add: example_world_def)
  have one: "length (rent_payments (snd (RentTracking_handleSubmit True 1 7 march_rent_A
       example_world))) = 1"
    by (simp add: RentTracking_handleSubmit_def recordPayment_try_def insert_rent_payment_def
        Let_def log_call_def has_role_def numeric_10_2_def march_rent_A_def example_world_def)
  show ?thesis
    using recordPayment_month_year_checked
            [of True 1 7 "march_rent_A \<lparr> in_month := 13 \<rparr>" example_world
               "fst (RentTracking_handleSubmit True 1 7 (march_rent_A \<lparr> in_month := 13 \<rparr>)
                  example_world)"
               "snd (RentTracking_handleSubmit True 1 7 (march_rent_A \<lparr> in_month := 13 \<rparr>)
                  example_world)"]
          recordPayment_month_year_checked
            [of True 1 7 march_rent_A example_world
               "fst (RentTracking_handleSubmit True 1 7 march_rent_A example_world)"
               "snd (RentTracking_handleSubmit True 1 7 march_rent_A example_world)"]
          none one
    by (simp add: list_all_iff)
qed

text \<open>
  C7 as stated fails: an admin's submission with the amount -5000.00 is accepted and the
  row with the negative amount is recorded.
\<close>

theorem negative_amount_recorded:
  "fst (RentTracking_handleSubmit True 1 7 (march_rent_A \<lparr> in_amount := - 500000 \<rparr>)
       example_world)
     = \<lparr> title = ''Payment recorded'',
         description = ''Rent payment has been recorded successfully.'',
         destructive = False \<rparr>
   \<and> map rp_amount (rent_payments
        (snd (RentTracking_handleSubmit True 1 7 (march_rent_A \<lparr> in_amount := - 500000 \<rparr>)
           example_world))) = [- 500000]"
  by (simp add: RentTracking_handleSubmit_def recordPayment_try_def insert_rent_payment_def
      Let_def log_call_def has_role_def numeric_10_2_def march_rent_A_def example_world_def)

section \<open>Creating a maintenance request\<close>

lemma requestSchema_parse_cases:
  "requestSchema_parse d =
     (if length d < 10 then Inl (ZodError ''Please describe the issue in at least 10 characters'' [])
      else if length d > 1000 then Inl (ZodError ''String must contain at most 1000 character(s)'' [])
      else Inr d)"
  by (simp add: requestSchema_parse_def zod_result_def zod_min_def zod_max_def)

lemma sent_insert_maintenance_request:
  "sent (snd (insert_maintenance_request uid now x w)) = sent w @ [Insert T_maintenance_requests]"
  by (simp add: insert_maintenance_request_def log_call_def Let_def)

text \<open>
  C4. \<open>handleSubmit\<close> validates the length of the description against [10, 1000]
  before it writes: outside the interval (9 and 1001 in particular) it shows the
  validation error and leaves the store and the log of sent requests as they were, so no
  insert is issued; inside it (10 and 1000 in particular) the parse returns the
  description and exactly one insert into \<open>maintenance_requests\<close> is sent.
\<close>

theorem issue_description_length_validated:
  "(length d < 10 \<or> length d > 1000 \<longrightarrow>
      title (fst (SubmitRequest_handleSubmit uid now (Some ti) d w)) = ''Validation error''
      \<and> destructive (fst (SubmitRequest_handleSubmit uid now (Some ti) d w))
      \<and> snd (SubmitRequest_handleSubmit uid now (Some ti) d w) = w)
   \<and> (10 \<le> length d \<and> length d \<le> 1000 \<longrightarrow>
      requestSchema_parse d = Inr d
      \<and> sent (snd (SubmitRequest_handleSubmit uid now (Some ti) d w))
          = sent w @ [Insert T_maintenance_requests])"
proof (intro conjI impI)
  assume "length d < 10 \<or> length d > 1000"
  then show "title (fst (SubmitRequest_handleSubmit uid now (Some ti) d w)) = ''Validation error''"
    and "destructive (fst (SubmitRequest_handleSubmit uid now (Some ti) d w))"
    and "snd (SubmitRequest_handleSubmit uid now (Some ti) d w) = w"
    by (auto simp: SubmitRequest_handleSubmit_def requestSchema_parse_cases)
next
  assume h: "10 \<le> length d \<and> length d \<le> 1000"
  then show "requestSchema_parse d = Inr d"
    by (simp add: requestSchema_parse_cases)
  with sent_insert_maintenance_request
  show "sent (snd (SubmitRequest_handleSubmit uid now (Some ti) d w))
          = sent w @ [Insert T_maintenance_requests]"
    by (simp add: SubmitRequest_handleSubmit_def split: prod.splits option.splits)
       (metis snd_conv)
qed

theorem issue_description_length_validated_witness:
  "snd (SubmitRequest_handleSubmit 2 7 (Some info_of_A) (replicate 9 (CHR ''x'')) example_world)
     = example_world
   \<and> title (fst (SubmitRequest_handleSubmit 2 7 (Some info_of_A) (replicate 9 (CHR ''x''))
        example_world)) = ''Validation error''
   \<and> sent (snd (SubmitRequest_handleSubmit 2 7 (Some info_of_A) (replicate 10 (CHR ''x''))
        example_world)) = [Insert T_maintenance_requests]
   \<and> sent (snd (SubmitRequest_handleSubmit 2 7 (Some info_of_A) (replicate 1000 (CHR ''x''))
        example_world)) = [Insert T_maintenance_requests]
   \<and> snd (SubmitRequest_handleSubmit 2 7 (Some info_of_A) (replicate 1001 (CHR ''x''))
        example_world) = example_world
   \<and> title (fst (SubmitRequest_handleSubmit 2 7 (Some info_of_A) (replicate 1001 (CHR ''x''))
        example_world)) = ''Validation error''"
proof -
  have s0: "sent example_world = []"
    by (simp add: example_world_def)
  show ?thesis
    using issue_description_length_validated
            [of "replicate 9 (CHR ''x'')" 2 7 info_of_A example_world]
          issue_description_length_validated
            [of "replicate 10 (CHR ''x'')" 2 7 info_of_A example_world]
          issue_description_length_validated
            [of "replicate 1000 (CHR ''x'')" 2 7 info_of_A example_world]
          issue_description_length_validated
            [of "replicate 1001 (CHR ''x'')" 2 7 info_of_A example_world]
          s0
    by simp
qed

section \<open>What a tenant can read\<close>

lemma get_tenant_id_for_user_cong:
  "tenants w' = tenants w \<Longrightarrow> get_tenant_id_for_user uid w' = get_tenant_id_for_user uid w"
  by (simp add: get_tenant_id_for_user_def)

lemma has_role_cong:
  "user_roles w' = user_roles w \<Longrightarrow> has_role uid r w' = has_role uid r w"
  by (simp add: has_role_def)

text \<open>
  C9. For a principal who is not an admin, every payment that \<open>fetchPayments\<close> returns
  and every request that \<open>fetchTenantData\<close> returns belongs to the principal's own
  tenant row (so a read for another tenant's rows gives no rows; a read does not fail),
  and the result does not depend on the rows of other tenants: two stores with the same
  roles and tenants and the same own rows give the same result. The same holds for every
  read of the two tables, since the policies leave the principal only the own rows.
\<close>

theorem tenant_reads_only_own_rows:
  assumes "\<not> has_role uid Admin w"
  shows "(\<forall>p \<in> set (fetchPayments uid w). get_tenant_id_for_user uid w = Some (rp_tenant_id p))
       \<and> (\<forall>r \<in> set (fetchTenantData uid w). get_tenant_id_for_user uid w = Some (mr_tenant_id r))
       \<and> (\<forall>w'. user_roles w' = user_roles w \<and> tenants w' = tenants w
              \<and> filter (\<lambda>p. get_tenant_id_for_user uid w = Some (rp_tenant_id p)) (rent_payments w')
                = filter (\<lambda>p. get_tenant_id_for_user uid w = Some (rp_tenant_id p)) (rent_payments w)
            \<longrightarrow> fetchPayments uid w' = fetchPayments uid w)
       \<and> (\<forall>w'. user_roles w' = user_roles w \<and> tenants w' = tenants w
              \<and> filter (\<lambda>r. get_tenant_id_for_user uid w = Some (mr_tenant_id r))
                  (maintenance_requests w')
                = filter (\<lambda>r. get_tenant_id_for_user uid w = Some (mr_tenant_id r))
                    (maintenance_requests w)
            \<longrightarrow> fetchTenantData uid w' = fetchTenantData uid w)
       \<and> (\<forall>p \<in> set (select_rent_payments uid w).
             get_tenant_id_for_user uid w = Some (rp_tenant_id p))
       \<and> (\<forall>r \<in> set (select_maintenance_requests uid w).
             get_tenant_id_for_user uid w = Some (mr_tenant_id r))"
proof (intro conjI allI impI ballI)
  fix p assume "p \<in> set (fetchPayments uid w)"
  then show "get_tenant_id_for_user uid w = Some (rp_tenant_id p)"
    using assms by (simp add: fetchPayments_def set_order_desc select_rent_payments_def)
next
  fix r assume "r \<in> set (fetchTenantData uid w)"
  then show "get_tenant_id_for_user uid w = Some (mr_tenant_id r)"
    using assms
    by (simp add: fetchTenantData_def set_order_desc select_maintenance_requests_def)
next
  fix w' :: world
  assume h: "user_roles w' = user_roles w \<and> tenants w' = tenants w
     \<and> filter (\<lambda>p. get_tenant_id_for_user uid w = Some (rp_tenant_id p)) (rent_payments w')
       = filter (\<lambda>p. get_tenant_id_for_user uid w = Some (rp_tenant_id p)) (rent_payments w)"
  then have "\<not> has_role uid Admin w'"
    and "get_tenant_id_for_user uid w' = get_tenant_id_for_user uid w"
    using assms has_role_cong [of w' w uid Admin] get_tenant_id_for_user_cong [of w' w uid] by simp_all
  with h assms show "fetchPayments uid w' = fetchPayments uid w"
    by (simp add: fetchPayments_def select_rent_payments_def)
next
  fix w' :: world
  assume h: "user_roles w' = user_roles w \<and> tenants w' = tenants w
     \<and> filter (\<lambda>r. get_tenant_id_for_user uid w = Some (mr_tenant_id r)) (maintenance_requests w')
       = filter (\<lambda>r. get_tenant_id_for_user uid w = Some (mr_tenant_id r))
           (maintenance_requests w)"
  then have "\<not> has_role uid Admin w'"
    and "get_tenant_id_for_user uid w' = get_tenant_id_for_user uid w"
    using assms has_role_cong [of w' w uid Admin] get_tenant_id_for_user_cong [of w' w uid] by simp_all
  with h assms show "fetchTenantData uid w' = fetchTenantData uid w"
    by (simp add: fetchTenantData_def select_maintenance_requests_def)
next
  fix p assume "p \<in> set (select_rent_payments uid w)"
  then show "get_tenant_id_for_user uid w = Some (rp_tenant_id p)"
    using assms by (simp add: select_rent_payments_def)
next
  fix r assume "r \<in> set (select_maintenance_requests uid w)"
  then show "get_tenant_id_for_user uid w = Some (mr_tenant_id r)"
    using assms by (simp add: select_maintenance_requests_def)
qed

theorem tenant_reads_only_own_rows_witness:
  "\<not> has_role 2 Admin shared_world
   \<and> get_tenant_id_for_user 2 shared_world = Some 10
   \<and> fetchPayments 2 shared_world = [payment_of_A]
   \<and> fetchTenantData 2 shared_world = []
   \<and> list_all (\<lambda>p. get_tenant_id_for_user 2 shared_world = Some (rp_tenant_id p))
        (fetchPayments 2 shared_world)
   \<and> fetchPayments 2 paid_world = fetchPayments 2 shared_world"
proof -
  have na: "\<not> has_role 2 Admin shared_world"
    by (simp add: shared_world_def example_world_def has_role_def)
  have own: "get_tenant_id_for_user 2 shared_world = Some 10"
    by (simp add: shared_world_def example_world_def get_tenant_id_for_user_def)
  have ev: "fetchPayments 2 shared_world = [payment_of_A]
          \<and> fetchTenantData 2 shared_world = []"
    using na own
    by (simp add: fetchPayments_def fetchTenantData_def select_rent_payments_def
        select_maintenance_requests_def order_desc_def)
       (simp add: shared_world_def payment_of_A_def payment_of_B_def request_of_B_def)
  note th = tenant_reads_only_own_rows [OF na]
  from th have "\<forall>p \<in> set (fetchPayments 2 shared_world).
      get_tenant_id_for_user 2 shared_world = Some (rp_tenant_id p)"
    by (rule conjunct1)
  then have la: "list_all (\<lambda>p. get_tenant_id_for_user 2 shared_world = Some (rp_tenant_id p))
        (fetchPayments 2 shared_world)"
    by (simp only: list_all_iff)
  have pre: "user_roles paid_world = user_roles shared_world
     \<and> tenants paid_world = tenants shared_world
     \<and> filter (\<lambda>p. get_tenant_id_for_user 2 shared_world = Some (rp_tenant_id p))
         (rent_payments paid_world)
       = filter (\<lambda>p. get_tenant_id_for_user 2 shared_world = Some (rp_tenant_id p))
           (rent_payments shared_world)"
    unfolding own
    by (simp add: paid_world_def shared_world_def payment_of_A_def payment_of_B_def)
  from th pre have eq: "fetchPayments 2 paid_world = fetchPayments 2 shared_world"
    by blast
  show ?thesis
    using na own ev la eq by blast
qed

section \<open>The life of a maintenance request\<close>

lemma submitted_world_eval:
  "submitted_world = example_world
     \<lparr> maintenance_requests :=
         [\<lparr> mr_id = 100, mr_tenant_id = 10, mr_room_no = ''101'',
            mr_issue_description = ''The tap in the bathroom leaks'', mr_status = ''open'',
            mr_created_at = 100, mr_resolved_at = None \<rparr>],
       next_uuid := 101,
       sent := [Insert T_maintenance_requests] \<rparr>"
  by (simp add: submitted_world_def SubmitRequest_handleSubmit_def requestSchema_parse_cases
      insert_maintenance_request_def log_call_def Let_def info_of_A_def example_world_def
      has_role_def get_tenant_id_for_user_def)

lemma has_role_1_submitted: "has_role 1 Admin submitted_world"
  by (simp add: submitted_world_eval example_world_def has_role_def)

lemma requests_resolved_world:
  "maintenance_requests resolved_world =
     [\<lparr> mr_id = 100, mr_tenant_id = 10, mr_room_no = ''101'',
        mr_issue_description = ''The tap in the bathroom leaks'', mr_status = ''resolved'',
        mr_created_at = 100, mr_resolved_at = Some 200 \<rparr>]"
  using has_role_1_submitted
  by (simp add: resolved_world_def handleResolve_def update_request_resolved_def log_call_def
      Let_def has_role_def)
     (simp add: submitted_world_eval resolve_row_def)

lemma requests_early_resolved_world:
  "maintenance_requests early_resolved_world =
     [\<lparr> mr_id = 100, mr_tenant_id = 10, mr_room_no = ''101'',
        mr_issue_description = ''The tap in the bathroom leaks'', mr_status = ''resolved'',
        mr_created_at = 100, mr_resolved_at = Some 50 \<rparr>]"
  using has_role_1_submitted
  by (simp add: early_resolved_world_def handleResolve_def update_request_resolved_def
      log_call_def Let_def has_role_def)
     (simp add: submitted_world_eval resolve_row_def)

lemma reachable_submitted: "reachable synced submitted_world"
proof -
  have "reachable synced example_world"
    by (rule reachable.initial) (simp add: example_world_def)
  moreover have "app_step synced example_world submitted_world"
    unfolding submitted_world_def
    by (rule app_step.submit_request) (rule prod.collapse [symmetric])
  ultimately show ?thesis by (rule reachable.step)
qed

lemma reachable_resolved: "reachable True resolved_world"
proof -
  have "app_step True submitted_world resolved_world"
    unfolding resolved_world_def
    by (rule app_step.resolve_request
          [where uid = 1 and client_now = 200 and rid = 100
             and t = "fst (handleResolve 1 200 100 submitted_world)"])
       (simp_all add: submitted_world_eval)
  with reachable_submitted show ?thesis by (rule reachable.step)
qed

lemma reachable_early_resolved: "reachable False early_resolved_world"
proof -
  have "app_step False submitted_world early_resolved_world"
    unfolding early_resolved_world_def
    by (rule app_step.resolve_request
          [where uid = 1 and client_now = 50 and rid = 100
             and t = "fst (handleResolve 1 50 100 submitted_world)"])
       simp_all
  with reachable_submitted show ?thesis by (rule reachable.step)
qed

lemma requests_after_submit:
  assumes "SubmitRequest_handleSubmit uid now tenantInfo d w = (t, w')"
  shows "maintenance_requests w' = maintenance_requests w
       \<or> (\<exists>r. maintenance_requests w' = maintenance_requests w @ [r]
              \<and> mr_status r = ''open'' \<and> mr_resolved_at r = None)"
  using assms
  by (auto simp: SubmitRequest_handleSubmit_def insert_maintenance_request_def Let_def
      log_call_def split: option.splits sum.splits thrown.splits if_splits)

lemma requests_after_resolve:
  assumes "handleResolve uid c rid w = (t, w')"
  shows "maintenance_requests w' =
     (if has_role uid Admin w
      then map (\<lambda>r. if mr_id r = rid then resolve_row c r else r) (maintenance_requests w)
      else maintenance_requests w)"
  using assms
  by (auto simp: handleResolve_def update_request_resolved_def Let_def split: if_splits)
     (simp_all add: log_call_def)

lemma requests_after_payment:
  assumes "RentTracking_handleSubmit pe uid now x w = (t, w')"
  shows "maintenance_requests w' = maintenance_requests w"
  using assms
  by (auto simp: RentTracking_handleSubmit_def recordPayment_try_def insert_rent_payment_def
      Let_def log_call_def split: if_splits)

lemma requests_after_signUp:
  "auth_signUp e p w = (r, w1) \<Longrightarrow> maintenance_requests w1 = maintenance_requests w"
  by (auto simp: auth_signUp_def Let_def log_call_def split: if_splits)

lemma requests_after_insert_tenant:
  "insert_tenant uid now x w = (r, w1) \<Longrightarrow> maintenance_requests w1 = maintenance_requests w"
  by (auto simp: insert_tenant_def Let_def log_call_def split: if_splits)

lemma requests_after_insert_user_role:
  "insert_user_role uid x w = (r, w1) \<Longrightarrow> maintenance_requests w1 = maintenance_requests w"
  by (auto simp: insert_user_role_def Let_def log_call_def split: if_splits)

lemma requests_after_addTenant_try:
  assumes "addTenant_try is_email uid now f w = (r, w')"
  shows "maintenance_requests w' = maintenance_requests w"
  using assms
  by (auto simp: addTenant_try_def split: sum.splits prod.splits option.splits
      dest!: requests_after_signUp requests_after_insert_tenant requests_after_insert_user_role)

lemma requests_after_add_tenant:
  assumes "TenantManagement_handleSubmit pe is_email uid now f w = (t, w')"
  shows "maintenance_requests w' = maintenance_requests w"
proof -
  obtain r w1 where a: "addTenant_try is_email uid now f w = (r, w1)"
    by (cases "addTenant_try is_email uid now f w")
  with assms have "w' = w1"
    by (auto simp: TenantManagement_handleSubmit_def split: sum.splits thrown.splits)
  with requests_after_addTenant_try [OF a] show ?thesis by simp
qed

lemma step_requests:
  assumes "app_step synced w w'"
  shows "maintenance_requests w' = maintenance_requests w
       \<or> (\<exists>r. maintenance_requests w' = maintenance_requests w @ [r]
              \<and> mr_status r = ''open'' \<and> mr_resolved_at r = None)
       \<or> (\<exists>c rid. maintenance_requests w' =
              map (\<lambda>r. if mr_id r = rid then resolve_row c r else r) (maintenance_requests w)
            \<and> (synced \<longrightarrow> (\<forall>r \<in> set (maintenance_requests w).
                   mr_id r = rid \<longrightarrow> mr_created_at r \<le> c)))"
  using assms
proof cases
  case (submit_request uid now tenantInfo issueDescription t)
  from requests_after_submit [OF this] show ?thesis by blast
next
  case (resolve_request uid client_now rid t)
  from requests_after_resolve [OF resolve_request(1)] resolve_request(2) show ?thesis
    by (cases "has_role uid Admin w") auto
next
  case (record_payment pe uid now formData t)
  from requests_after_payment [OF this] show ?thesis by simp
next
  case (add_tenant pe is_email uid now tenantForm t)
  from requests_after_add_tenant [OF this] show ?thesis by simp
qed

lemma step_keeps_resolved:
  assumes "app_step synced w w'" and "i < length (maintenance_requests w)"
    and "mr_status (maintenance_requests w ! i) = ''resolved''"
  shows "i < length (maintenance_requests w')
       \<and> mr_id (maintenance_requests w' ! i) = mr_id (maintenance_requests w ! i)
       \<and> mr_status (maintenance_requests w' ! i) = ''resolved''"
  using step_requests [OF assms(1)] assms(2,3)
  by (auto simp: nth_append resolve_row_def)

lemma steps_keep_resolved:
  assumes "(app_step synced)\<^sup>*\<^sup>* w w'"
  shows "i < length (maintenance_requests w)
       \<and> mr_status (maintenance_requests w ! i) = ''resolved''
     \<Longrightarrow> i < length (maintenance_requests w')
       \<and> mr_id (maintenance_requests w' ! i) = mr_id (maintenance_requests w ! i)
       \<and> mr_status (maintenance_requests w' ! i) = ''resolved''"
  using assms
proof (induction rule: rtranclp_induct)
  case base
  then show ?case by simp
next
  case (step y z)
  from step.IH [OF step.prems] step_keeps_resolved [OF step.hyps(2), of i]
  show ?case by simp
qed

lemma reachable_resolved_at_iff:
  assumes "reachable synced w"
  shows "\<forall>r \<in> set (maintenance_requests w).
           (mr_resolved_at r \<noteq> None) = (mr_status r = ''resolved'')"
  using assms
proof induction
  case (initial w)
  then show ?case by simp
next
  case (step w w')
  have IH: "\<And>r. r \<in> set (maintenance_requests w)
      \<Longrightarrow> (mr_resolved_at r \<noteq> None) = (mr_status r = ''resolved'')"
    using step.IH by blast
  from step_requests [OF step.hyps(2)] show ?case
  proof (elim disjE exE conjE)
    assume "maintenance_requests w' = maintenance_requests w"
    then show ?thesis using IH by simp
  next
    fix r assume "maintenance_requests w' = maintenance_requests w @ [r]"
      and "mr_status r = ''open''" and "mr_resolved_at r = None"
    then show ?thesis using IH by auto
  next
    fix c rid
    assume "maintenance_requests w' =
      map (\<lambda>r. if mr_id r = rid then resolve_row c r else r) (maintenance_requests w)"
    then show ?thesis using IH by (auto simp: resolve_row_def)
  qed
qed

lemma reachable_synced_order:
  assumes "reachable True w"
  shows "\<forall>r \<in> set (maintenance_requests w). \<forall>c. mr_resolved_at r = Some c
           \<longrightarrow> mr_created_at r \<le> c"
  using assms
proof induction
  case (initial w)
  then show ?case by simp
next
  case (step w w')
  from step_requests [OF step.hyps(2)] step.IH show ?case
    by (auto simp: resolve_row_def)
qed

lemma resolve_sets_fields:
  assumes "has_role uid Admin w"
  shows "list_all2 (\<lambda>r r'. mr_id r' = mr_id r \<and> mr_created_at r' = mr_created_at r
            \<and> (if mr_id r = rid
                then mr_status r' = ''resolved'' \<and> mr_resolved_at r' = Some c
                else r' = r))
          (maintenance_requests w) (maintenance_requests (snd (handleResolve uid c rid w)))"
proof -
  have "maintenance_requests (snd (handleResolve uid c rid w)) =
     map (\<lambda>r. if mr_id r = rid then resolve_row c r else r) (maintenance_requests w)"
    using requests_after_resolve [of uid c rid w "fst (handleResolve uid c rid w)"
        "snd (handleResolve uid c rid w)"] assms
    by simp
  then show ?thesis
    by (simp add: list_all2_map2 list_all2_same resolve_row_def)
qed

text \<open>
  C2, as the code has it. For an admin, \<open>handleResolve\<close> sets \<open>status = 'resolved'\<close> and
  \<open>resolved_at\<close> to the clock reading it sends on every row with the given id and leaves
  the other rows, the ids and \<open>created_at\<close> as they are. Whatever steps follow, a
  resolved request stays in its place with status resolved. In every reachable store
  \<open>resolved_at\<close> is set exactly on the resolved requests. \<open>resolved_at\<close> is not earlier
  than \<open>created_at\<close> in every store reached by steps whose resolves were sent with a
  browser clock not earlier than the \<open>created_at\<close> of the request.
\<close>

theorem maintenance_request_lifecycle:
  "(has_role uid Admin w \<longrightarrow>
      list_all2 (\<lambda>r r'. mr_id r' = mr_id r \<and> mr_created_at r' = mr_created_at r
            \<and> (if mr_id r = rid
                then mr_status r' = ''resolved'' \<and> mr_resolved_at r' = Some c
                else r' = r))
          (maintenance_requests w) (maintenance_requests (snd (handleResolve uid c rid w))))
   \<and> ((app_step synced)\<^sup>*\<^sup>* w w' \<longrightarrow>
        (\<forall>i < length (maintenance_requests w).
            mr_status (maintenance_requests w ! i) = ''resolved'' \<longrightarrow>
              i < length (maintenance_requests w')
              \<and> mr_id (maintenance_requests w' ! i) = mr_id (maintenance_requests w ! i)
              \<and> mr_status (maintenance_requests w' ! i) = ''resolved''))
   \<and> (reachable synced w \<longrightarrow>
        (\<forall>r \<in> set (maintenance_requests w).
            (mr_resolved_at r \<noteq> None) = (mr_status r = ''resolved'')))
   \<and> (reachable True w \<longrightarrow>
        (\<forall>r \<in> set (maintenance_requests w). \<forall>c'. mr_resolved_at r = Some c'
            \<longrightarrow> mr_created_at r \<le> c'))"
  using resolve_sets_fields [of uid w rid c] steps_keep_resolved [of synced w w']
    reachable_resolved_at_iff [of synced w] reachable_synced_order [of w]
  by blast

theorem maintenance_request_lifecycle_witness:
  "has_role 1 Admin submitted_world
   \<and> map mr_status (maintenance_requests submitted_world) = [''open'']
   \<and> list_all2 (\<lambda>r r'. mr_id r' = mr_id r \<and> mr_created_at r' = mr_created_at r
            \<and> (if mr_id r = 100
                then mr_status r' = ''resolved'' \<and> mr_resolved_at r' = Some 200
                else r' = r))
          (maintenance_requests submitted_world) (maintenance_requests resolved_world)
   \<and> reachable True resolved_world
   \<and> (app_step True)\<^sup>*\<^sup>* resolved_world (snd (handleResolve 1 300 100 resolved_world))
   \<and> mr_status (maintenance_requests resolved_world ! 0) = ''resolved''
   \<and> mr_status (maintenance_requests (snd (handleResolve 1 300 100 resolved_world)) ! 0)
       = ''resolved''
   \<and> list_all (\<lambda>r. (mr_resolved_at r \<noteq> None) = (mr_status r = ''resolved''))
        (maintenance_requests resolved_world)
   \<and> list_all (\<lambda>r. \<forall>c'. mr_resolved_at r = Some c' \<longrightarrow> mr_created_at r \<le> c')
        (maintenance_requests resolved_world)
   \<and> map mr_resolved_at (maintenance_requests resolved_world) = [Some 200]"
proof -
  note adm = has_role_1_submitted
  have op: "map mr_status (maintenance_requests submitted_world) = [''open'']"
    by (simp add: submitted_world_eval)
  have a: "list_all2 (\<lambda>r r'. mr_id r' = mr_id r \<and> mr_created_at r' = mr_created_at r
            \<and> (if mr_id r = 100
                then mr_status r' = ''resolved'' \<and> mr_resolved_at r' = Some 200
                else r' = r))
          (maintenance_requests submitted_world) (maintenance_requests resolved_world)"
    using maintenance_request_lifecycle [of 1 submitted_world 100 200 True submitted_world] adm
    unfolding resolved_world_def by blast
  note re = reachable_resolved
  have st: "app_step True resolved_world (snd (handleResolve 1 300 100 resolved_world))"
    by (rule app_step.resolve_request
          [where uid = 1 and client_now = 300 and rid = 100
             and t = "fst (handleResolve 1 300 100 resolved_world)"])
       (simp_all add: requests_resolved_world)
  then have sts: "(app_step True)\<^sup>*\<^sup>* resolved_world
      (snd (handleResolve 1 300 100 resolved_world))"
    by (rule r_into_rtranclp)
  have r0: "0 < length (maintenance_requests resolved_world)
      \<and> mr_status (maintenance_requests resolved_world ! 0) = ''resolved''"
    by (simp add: requests_resolved_world)
  note th = maintenance_request_lifecycle
      [of 1 resolved_world 100 300 True "snd (handleResolve 1 300 100 resolved_world)"]
  from th sts r0
  have b: "mr_status (maintenance_requests (snd (handleResolve 1 300 100 resolved_world)) ! 0)
       = ''resolved''"
    by blast
  from th re
  have c: "list_all (\<lambda>r. (mr_resolved_at r \<noteq> None) = (mr_status r = ''resolved''))
        (maintenance_requests resolved_world)"
    unfolding list_all_iff by blast
  from th re
  have d: "list_all (\<lambda>r. \<forall>c'. mr_resolved_at r = Some c' \<longrightarrow> mr_created_at r \<le> c')
        (maintenance_requests resolved_world)"
    unfolding list_all_iff by blast
  have e: "map mr_resolved_at (maintenance_requests resolved_world) = [Some 200]"
    by (simp add: requests_resolved_world)
  show ?thesis
    using adm op a re sts r0 b c d e by blast
qed

text \<open>
  C2 as stated fails in its last part: \<open>created_at\<close> is the server's \<open>now()\<close> and
  \<open>resolved_at\<close> the browser's \<open>new Date()\<close>. A request created at server time 100 and
  resolved by an admin whose clock reads 50 is a reachable store with
  \<open>resolved_at < created_at\<close>.
\<close>

theorem resolved_before_created:
  "reachable False early_resolved_world
   \<and> map mr_status (maintenance_requests early_resolved_world) = [''resolved'']
   \<and> map mr_created_at (maintenance_requests early_resolved_world) = [100]
   \<and> map mr_resolved_at (maintenance_requests early_resolved_world) = [Some 50]"
  using reachable_early_resolved by (simp add: requests_early_resolved_world)

section \<open>A principal without a role record\<close>



section \<open>Adding a tenant\<close>















end
